theory Spec2Isabelle
  imports Complex_Main "HOL-Library.Product_Lexorder"
begin

section \<open>The dealer table\<close>

text \<open>
  The script builds one pandas DataFrame \<open>df\<close> with a row per dealer of the input file.
  A row is a record whose fields are the columns of \<open>df\<close>, under the column names of
  the source. Ratings and coordinates are Python floats; they are modelled by the real
  numbers they denote, on which the comparisons of the source agree with the order of
  the reals. A missing postal code or coordinate (\<open>None\<close>, shown by pandas as \<open>NaN\<close>) is
  \<open>None\<close>. The review times are unix epoch seconds.
\<close>

record row =
  Dealer :: string
  Rating :: real
  Total_Reviews :: int
  Province :: string
  PostalCode :: "string option"
  Latitude :: "real option"
  Longitude :: "real option"
  ReviewTime :: "int list"

text \<open>A calendar date (year, month, day), as the sidebar's date inputs return it.\<close>

type_synonym date = "int \<times> int \<times> int"

section \<open>Filter Data\<close>

text \<open>
  \<open>filter_data(start_date, end_date, provinces, ratings, dealer)\<close> reads the global
  table \<open>df\<close>, which is the last argument here. The boolean mask of the first statement
  selects the rows, in their order; the second statement narrows the selection to one
  dealer unless the select box holds its first entry \<open>All Dealers\<close>.
\<close>

definition filter_data ::
  "date \<Rightarrow> date \<Rightarrow> string list \<Rightarrow> real \<times> real \<Rightarrow> string \<Rightarrow> row list \<Rightarrow> row list" where
  "filter_data start_date end_date provinces ratings dealer df =
     (let filtered =
            filter (\<lambda>r. Rating r \<ge> fst ratings \<and> Rating r \<le> snd ratings
                        \<and> Province r \<in> set provinces) df
      in if dealer \<noteq> ''All Dealers''
         then filter (\<lambda>r. Dealer r = dealer) filtered
         else filtered)"

text \<open>The three dealers of the end-to-end example.\<close>

definition dealer_A :: row where
  "dealer_A = \<lparr>Dealer = ''A'', Rating = 3.5, Total_Reviews = 10, Province = ''ON'',
     PostalCode = None, Latitude = None, Longitude = None, ReviewTime = []\<rparr>"

definition dealer_B :: row where
  "dealer_B = \<lparr>Dealer = ''B'', Rating = 4.8, Total_Reviews = 20, Province = ''BC'',
     PostalCode = None, Latitude = None, Longitude = None, ReviewTime = []\<rparr>"

definition dealer_C :: row where
  "dealer_C = \<lparr>Dealer = ''C'', Rating = 2.0, Total_Reviews = 30, Province = ''ON'',
     PostalCode = None, Latitude = None, Longitude = None, ReviewTime = []\<rparr>"

section \<open>Geocoding with a cache\<close>

text \<open>
  \<open>geocode_postal_code\<close> asks the geocoding service for the coordinates of a postal code.
  The call \<open>requests.get(...).json()\<close> either raises (the connection fails, or the body
  is no JSON) or returns the decoded reply, of which the function reads the status and
  the locations of the results. The exceptions of the script are values of one type.
\<close>

datatype error = RequestException | OutOfBoundsDatetime | AttributeError

datatype geocode_reply = Reply string "(real \<times> real) list"

type_synonym coords = "real option \<times> real option"

definition geocode_postal_code ::
  "(string option \<Rightarrow> error + geocode_reply) \<Rightarrow> string option \<Rightarrow> error + coords" where
  "geocode_postal_code requests_get postal_code =
     (case requests_get postal_code of
        Inl e \<Rightarrow> Inl e
      | Inr (Reply status results) \<Rightarrow>
          if status = ''OK'' \<and> results \<noteq> []
          then (case hd results of (lat, lng) \<Rightarrow> Inr (Some lat, Some lng))
          else Inr (None, None))"

text \<open>
  The function is decorated with \<open>cached(cache)\<close> for \<open>cache = TTLCache(maxsize=100,
  ttl=86400)\<close> of the cachetools library. The cache is a list of entries, each a key with
  its value and the time at which it expires, from the least recently used entry to the
  most recently used one. Its clock is \<open>time.monotonic\<close>.

  What lies outside the program is a \<open>world\<close>: the successive readings of the clock and
  the outcomes of the successive requests to the service. The state of the geocoder is
  its cache with three counters that the program itself does not hold: how often the
  clock was read, the addresses requested from the service, and the postal codes that
  the decorated function was called with.
\<close>

type_synonym entry = "string option \<times> coords \<times> real"

record world =
  timer :: "nat \<Rightarrow> real"
  requests_get :: "nat \<Rightarrow> string option \<Rightarrow> error + geocode_reply"

record geocoder =
  cache :: "entry list"
  clock_reads :: nat
  requests :: "string option list"
  lookups :: "string option list"

definition maxsize :: nat where
  "maxsize = 100"

definition ttl :: real where
  "ttl = 86400"

definition empty_geocoder :: geocoder where
  "empty_geocoder = \<lparr>cache = [], clock_reads = 0, requests = [], lookups = []\<rparr>"

text \<open>
  \<open>expire(time)\<close> removes the entries that are no longer alive at that time. The library
  walks its entries in the order of their expiry and stops at the first live one; with
  one \<open>ttl\<close> for all entries and a clock that never runs backwards, that removes every
  entry whose time has come.
\<close>

definition expire :: "real \<Rightarrow> entry list \<Rightarrow> entry list" where
  "expire time c = filter (\<lambda>(k, v, expires). time < expires) c"

text \<open>
  \<open>cache[key]\<close>: a key that is absent is a miss, without a look at the clock; a key
  that is present is a hit, and becomes the most recently used, if the clock is before
  its expiry, and a miss otherwise.
\<close>

definition cache_getitem :: "world \<Rightarrow> geocoder \<Rightarrow> string option \<Rightarrow> coords option \<times> geocoder" where
  "cache_getitem w g key =
     (case map_of (cache g) key of
        None \<Rightarrow> (None, g)
      | Some (v, expires) \<Rightarrow>
          let now = timer w (clock_reads g);
              g' = g\<lparr>clock_reads := Suc (clock_reads g)\<rparr>
          in if now < expires
             then (Some v, g'\<lparr>cache := filter (\<lambda>e. fst e \<noteq> key) (cache g) @ [(key, v, expires)]\<rparr>)
             else (None, g'))"

text \<open>
  \<open>cache[key] = value\<close>: one reading of the clock; the expired entries go; if the key is
  new, least recently used entries are discarded until there is room for one more; the
  entry is stored as the most recently used, to expire \<open>ttl\<close> seconds after the reading.
\<close>

definition cache_setitem :: "world \<Rightarrow> geocoder \<Rightarrow> string option \<Rightarrow> coords \<Rightarrow> geocoder" where
  "cache_setitem w g key v =
     (let time = timer w (clock_reads g);
          c1 = expire time (cache g);
          c2 = (if key \<in> fst ` set c1 then c1 else drop (length c1 + 1 - maxsize) c1)
      in g\<lparr>clock_reads := Suc (clock_reads g),
            cache := filter (\<lambda>e. fst e \<noteq> key) c2 @ [(key, v, time + ttl)]\<rparr>)"

text \<open>
  The decorated function: the cached value on a hit; on a miss the function is called,
  and its value, if it returns one, is stored. An exception of the function passes
  through the decorator, and nothing is stored.
\<close>

definition geocode_postal_code_cached ::
  "world \<Rightarrow> geocoder \<Rightarrow> string option \<Rightarrow> (error + coords) \<times> geocoder" where
  "geocode_postal_code_cached w g postal_code =
     (case cache_getitem w (g\<lparr>lookups := lookups g @ [postal_code]\<rparr>) postal_code of
        (Some v, g1) \<Rightarrow> (Inr v, g1)
      | (None, g1) \<Rightarrow>
          let g2 = g1\<lparr>requests := requests g1 @ [postal_code]\<rparr>
          in (case geocode_postal_code (requests_get w (length (requests g1))) postal_code of
                Inl e \<Rightarrow> (Inl e, g2)
              | Inr v \<Rightarrow> (Inr v, cache_setitem w g2 postal_code v)))"

text \<open>
  The loop that adds the geocoded coordinates: it visits each row of \<open>df\<close> once, and for
  a row whose latitude is missing it stores the two values that the decorated function
  returns. An exception ends the loop; the result is the table as the loop leaves it,
  the state of the geocoder, and the exception if there was one.
\<close>

fun add_geocoded :: "world \<Rightarrow> row list \<Rightarrow> geocoder \<Rightarrow> row list \<times> geocoder \<times> error option" where
  "add_geocoded w [] g = ([], g, None)"
| "add_geocoded w (row # rows) g =
     (if Latitude row = None
      then (case geocode_postal_code_cached w g (PostalCode row) of
              (Inl e, g') \<Rightarrow> (row # rows, g', Some e)
            | (Inr (lat, lng), g') \<Rightarrow>
                (case add_geocoded w rows g' of
                   (rows', g'', e) \<Rightarrow> (row\<lparr>Latitude := lat, Longitude := lng\<rparr> # rows', g'', e)))
      else (case add_geocoded w rows g of
              (rows', g'', e) \<Rightarrow> (row # rows', g'', e)))"

text \<open>
  A row after the loop against the row before it: the same row if its latitude was
  present, and otherwise a row that differs from it in the two coordinates at most.
\<close>

definition kept :: "row \<Rightarrow> row \<Rightarrow> bool" where
  "kept r r' =
     (if Latitude r \<noteq> None then r' = r
      else r' = r\<lparr>Latitude := Latitude r', Longitude := Longitude r'\<rparr>)"



definition world_toronto :: world where
  "world_toronto =
     \<lparr>timer = (\<lambda>n. real n), requests_get = (\<lambda>n address. Inr (Reply ''OK'' [(43.6, - 79.4)]))\<rparr>"







section \<open>Analyze Sentiment\<close>

text \<open>
  \<open>analyze_sentiment(reviews)\<close> keeps a dictionary of three counters, all zero at first,
  and adds one to a counter for each review. The polarity of a text is computed by the
  TextBlob library, which is no part of the script: it is the parameter \<open>polarity\<close>, a
  score of each text. The thresholds are the literals \<open>0.2\<close> and \<open>-0.2\<close> of the source, and
  a polarity "exactly 0.2" is one that equals that literal.
\<close>

datatype sentiment = Positive | Neutral | Negative

record sentiment_summary =
  positive :: int
  neutral :: int
  negative :: int

text \<open>The body of the loop, for one review.\<close>

definition analyze_review :: "(string \<Rightarrow> real) \<Rightarrow> string \<Rightarrow> sentiment_summary \<Rightarrow> sentiment_summary" where
  "analyze_review polarity review sentiment_summary =
     (let p = polarity review
      in if p > 0.2 then sentiment_summary\<lparr>positive := positive sentiment_summary + 1\<rparr>
         else if p < - 0.2 then sentiment_summary\<lparr>negative := negative sentiment_summary + 1\<rparr>
         else sentiment_summary\<lparr>neutral := neutral sentiment_summary + 1\<rparr>)"

fun analyze_loop :: "(string \<Rightarrow> real) \<Rightarrow> string list \<Rightarrow> sentiment_summary \<Rightarrow> sentiment_summary" where
  "analyze_loop polarity [] sentiment_summary = sentiment_summary"
| "analyze_loop polarity (review # reviews) sentiment_summary =
     analyze_loop polarity reviews (analyze_review polarity review sentiment_summary)"

definition analyze_sentiment :: "(string \<Rightarrow> real) \<Rightarrow> string list \<Rightarrow> sentiment_summary" where
  "analyze_sentiment polarity reviews =
     analyze_loop polarity reviews \<lparr>positive = 0, neutral = 0, negative = 0\<rparr>"

text \<open>
  The bucket of one text is the branch that the loop body takes on it: the same chain of
  comparisons, with the name of the counter in place of its increment.
\<close>

definition classify :: "(string \<Rightarrow> real) \<Rightarrow> string \<Rightarrow> sentiment" where
  "classify polarity review =
     (let p = polarity review
      in if p > 0.2 then Positive
         else if p < - 0.2 then Negative
         else Neutral)"

text \<open>One more review in a bucket.\<close>

fun count_in :: "sentiment \<Rightarrow> sentiment_summary \<Rightarrow> sentiment_summary" where
  "count_in Positive s = s\<lparr>positive := positive s + 1\<rparr>"
| "count_in Neutral s = s\<lparr>neutral := neutral s + 1\<rparr>"
| "count_in Negative s = s\<lparr>negative := negative s + 1\<rparr>"

section \<open>National Overview\<close>




section \<open>Review Trends\<close>








section \<open>Fetch Live Reviews\<close>

text \<open>
  \<open>fetch_live_reviews(dealers)\<close> takes a list of dictionaries, the dealers as the input
  file has them, and asks the Places service for each dealer that has a place
  identifier. The values of a dictionary are JSON values, with \<open>None\<close> of Python as the
  null value; a dictionary is a map from keys to values, and the assignments of the
  source to a key are updates of the map.
\<close>

datatype json =
    JNull
  | JBool bool
  | JNum real
  | JStr string
  | JList "json list"
  | JObj "(string \<times> json) list"

type_synonym dict = "string \<rightharpoonup> json"

text \<open>The truth value of a value, as \<open>if not place_id\<close> and \<open>if result\<close> test it.\<close>

fun truthy :: "json \<Rightarrow> bool" where
  "truthy JNull = False"
| "truthy (JBool b) = b"
| "truthy (JNum x) = (x \<noteq> 0)"
| "truthy (JStr s) = (s \<noteq> [])"
| "truthy (JList l) = (l \<noteq> [])"
| "truthy (JObj kvs) = (kvs \<noteq> [])"

text \<open>\<open>d.get(key)\<close> and \<open>d.get(key, default)\<close>, on a dealer and on a decoded JSON object.\<close>

definition dict_get :: "dict \<Rightarrow> string \<Rightarrow> json" where
  "dict_get d key = (case d key of None \<Rightarrow> JNull | Some v \<Rightarrow> v)"

definition obj_get :: "(string \<times> json) list \<Rightarrow> string \<Rightarrow> json \<Rightarrow> json" where
  "obj_get kvs key dflt = (case map_of kvs key of None \<Rightarrow> dflt | Some v \<Rightarrow> v)"

text \<open>The decimal digits of an integer, as an f-string prints a status code.\<close>

fun str_nat :: "nat \<Rightarrow> string" where
  "str_nat n =
     (if n < 10 then [''0123456789'' ! n]
      else str_nat (n div 10) @ [''0123456789'' ! (n mod 10)])"

declare str_nat.simps [simp del]

definition str_int :: "int \<Rightarrow> string" where
  "str_int i = (if i < 0 then CHR ''-'' # str_nat (nat (- i)) else str_nat (nat i))"

text \<open>
  A response of the service has a status code and a body, which \<open>response.json()\<close>
  decodes or, where the body is no JSON, raises on. The request itself raises when the
  service cannot be reached.
\<close>

datatype http_response = Response int "json option"

text \<open>
  The body of the loop for one dealer; \<open>details_get\<close> is the outcome of the request for
  a place identifier. Calling \<open>get\<close> on a decoded value that is no object raises.
\<close>

definition refresh_dealer :: "(json \<Rightarrow> error + http_response) \<Rightarrow> dict \<Rightarrow> error + dict" where
  "refresh_dealer details_get dealer =
     (let place_id = dict_get dealer ''place_id''
      in if \<not> truthy place_id
         then Inr (dealer(''Status'' \<mapsto> JStr ''Failed: No Place ID''))
         else
           (case details_get place_id of
              Inl e \<Rightarrow> Inl e
            | Inr (Response status_code body) \<Rightarrow>
                if status_code = 200
                then
                  (case body of
                     None \<Rightarrow> Inl RequestException
                   | Some (JObj kvs) \<Rightarrow>
                       (let result = obj_get kvs ''result'' (JObj [])
                        in if truthy result
                           then
                             (case result of
                                JObj attrs \<Rightarrow>
                                  Inr (dealer
                                    (''Rating'' \<mapsto> obj_get attrs ''rating'' JNull,
                                     ''Total Reviews'' \<mapsto> obj_get attrs ''user_ratings_total'' JNull,
                                     ''Reviews'' \<mapsto> obj_get attrs ''reviews'' (JList []),
                                     ''Status'' \<mapsto> JStr ''Updated''))
                              | _ \<Rightarrow> Inl AttributeError)
                           else Inr (dealer(''Status'' \<mapsto> JStr ''Failed: No Results'')))
                   | Some _ \<Rightarrow> Inl AttributeError)
                else Inr (dealer(''Status'' \<mapsto> JStr (''Failed: '' @ str_int status_code)))))"

text \<open>
  The loop over the dealers, with the list \<open>updated_dealers\<close> that it appends to. The
  service is \<open>places_get\<close>: the outcome of a request made for the dealer at a position of
  the list, by the place identifier sent. An exception ends the function.
\<close>

fun fetch_loop ::
  "(nat \<Rightarrow> json \<Rightarrow> error + http_response) \<Rightarrow> nat \<Rightarrow> dict list \<Rightarrow> dict list \<Rightarrow> error + dict list" where
  "fetch_loop places_get i [] updated_dealers = Inr updated_dealers"
| "fetch_loop places_get i (dealer # dealers) updated_dealers =
     (case refresh_dealer (places_get i) dealer of
        Inl e \<Rightarrow> Inl e
      | Inr d \<Rightarrow> fetch_loop places_get (Suc i) dealers (updated_dealers @ [d]))"

definition fetch_live_reviews ::
  "(nat \<Rightarrow> json \<Rightarrow> error + http_response) \<Rightarrow> dict list \<Rightarrow> error + dict list" where
  "fetch_live_reviews places_get dealers = fetch_loop places_get 0 dealers []"

text \<open>
  A request is answered when it returns a response and, if the status code is 200, the
  body of the response is a JSON object whose \<open>result\<close>, if it has one that counts as
  true, is an object again: the replies that the function can read without raising.
\<close>

definition readable :: "json option \<Rightarrow> bool" where
  "readable body =
     (case body of
        Some (JObj kvs) \<Rightarrow>
          (case obj_get kvs ''result'' (JObj []) of
             JObj attrs \<Rightarrow> True
           | r \<Rightarrow> \<not> truthy r)
      | _ \<Rightarrow> False)"

definition answered :: "error + http_response \<Rightarrow> bool" where
  "answered outcome =
     (case outcome of
        Inl e \<Rightarrow> False
      | Inr (Response status_code body) \<Rightarrow> status_code = 200 \<longrightarrow> readable body)"

text \<open>Three dealers and a service for the examples.\<close>

definition dealer_no_place :: dict where
  "dealer_no_place = [''actual_name'' \<mapsto> JStr ''A'']"

definition dealer_gone :: dict where
  "dealer_gone = [''actual_name'' \<mapsto> JStr ''B'', ''place_id'' \<mapsto> JStr ''p1'']"

definition dealer_live :: dict where
  "dealer_live = [''actual_name'' \<mapsto> JStr ''C'', ''place_id'' \<mapsto> JStr ''p2'']"

definition places_example :: "nat \<Rightarrow> json \<Rightarrow> error + http_response" where
  "places_example i place_id =
     (if place_id = JStr ''p2''
      then Inr (Response 200 (Some (JObj [(''result'',
             JObj [(''rating'', JNum 4.5), (''user_ratings_total'', JNum 12)])])))
      else Inr (Response 404 None))"

text \<open>A service that cannot be reached, and one whose answers are no JSON.\<close>

definition places_unreachable :: "nat \<Rightarrow> json \<Rightarrow> error + http_response" where
  "places_unreachable i place_id = Inl RequestException"

definition places_garbled :: "nat \<Rightarrow> json \<Rightarrow> error + http_response" where
  "places_garbled i place_id = Inr (Response 200 None)"

section \<open>Properties of the filter\<close>

text \<open>
  Claim C1. The filter returns exactly the rows, in their order, whose rating lies in the
  closed interval of the rating range, whose province is one of the selected provinces
  and, unless the dealer argument is \<open>All Dealers\<close>, whose name is that argument; the
  conditions are conjunctive and the comparison of names is equality of strings.
\<close>

theorem filter_data_exact:
  "filter_data start_date end_date provinces (low, high) dealer df =
     filter (\<lambda>r. low \<le> Rating r \<and> Rating r \<le> high \<and> Province r \<in> set provinces
                 \<and> (dealer \<noteq> ''All Dealers'' \<longrightarrow> Dealer r = dealer)) df"
  by (simp add: filter_data_def Let_def conj_commute conj_left_commute)

text \<open>
  The end-to-end example: provinces ON, BC, ON and ratings 3.5, 4.8, 2.0, filtered for
  province ON and the rating range from 3.0 to 5.0, leave the first dealer alone. With
  a dealer selected, only the row of that very name remains, and a name that differs in
  case selects nothing.
\<close>

theorem filter_data_exact_witness:
  "filter_data (2022, 1, 1) (2026, 1, 1) [''ON''] (3.0, 5.0) ''All Dealers''
     [dealer_A, dealer_B, dealer_C] = [dealer_A]
   \<and> filter_data (2022, 1, 1) (2026, 1, 1) [''ON'', ''BC''] (1.0, 5.0) ''C''
     [dealer_A, dealer_B, dealer_C] = [dealer_C]
   \<and> filter_data (2022, 1, 1) (2026, 1, 1) [''ON'', ''BC''] (1.0, 5.0) ''c''
     [dealer_A, dealer_B, dealer_C] = []"
  using filter_data_exact [of "(2022, 1, 1)" "(2026, 1, 1)" "[''ON'']" "3.0" "5.0"
      "''All Dealers''" "[dealer_A, dealer_B, dealer_C]"]
    filter_data_exact [of "(2022, 1, 1)" "(2026, 1, 1)" "[''ON'', ''BC'']" "1.0" "5.0"
      "''C''" "[dealer_A, dealer_B, dealer_C]"]
    filter_data_exact [of "(2022, 1, 1)" "(2026, 1, 1)" "[''ON'', ''BC'']" "1.0" "5.0"
      "''c''" "[dealer_A, dealer_B, dealer_C]"]
  by (simp add: dealer_A_def dealer_B_def dealer_C_def)

text \<open>
  Claim C2. The start date and the end date are inert: two invocations that agree on the
  provinces, the rating range and the dealer return the same rows whatever their dates.
\<close>

theorem filter_data_dates_inert:
  "filter_data start_date end_date provinces ratings dealer df =
   filter_data start_date' end_date' provinces ratings dealer df"
  by (simp add: filter_data_def)

text \<open>
  Claim C7. The filter is idempotent: filtering its own result with the same criteria
  returns that result unchanged.
\<close>

theorem filter_data_idempotent:
  "filter_data start_date end_date provinces ratings dealer
     (filter_data start_date end_date provinces ratings dealer df) =
   filter_data start_date end_date provinces ratings dealer df"
  by (simp add: filter_data_def Let_def conj_commute conj_left_commute)

section \<open>Properties of the sentiment tally\<close>

lemma analyze_review_classify:
  "analyze_review polarity review s = count_in (classify polarity review) s"
  by (simp add: analyze_review_def classify_def Let_def)

lemma analyze_loop_sum:
  "positive (analyze_loop polarity reviews s) + neutral (analyze_loop polarity reviews s)
     + negative (analyze_loop polarity reviews s)
   = positive s + neutral s + negative s + int (length reviews)"
proof (induction reviews arbitrary: s)
  case Nil
  show ?case by simp
next
  case (Cons review reviews)
  have "positive (analyze_review polarity review s) + neutral (analyze_review polarity review s)
          + negative (analyze_review polarity review s)
        = positive s + neutral s + negative s + 1"
    by (simp add: analyze_review_def Let_def)
  with Cons.IH [of "analyze_review polarity review s"] show ?case by simp
qed

lemma analyze_loop_counts:
  "positive (analyze_loop polarity reviews s)
     = positive s + int (length (filter (\<lambda>t. classify polarity t = Positive) reviews))
   \<and> neutral (analyze_loop polarity reviews s)
     = neutral s + int (length (filter (\<lambda>t. classify polarity t = Neutral) reviews))
   \<and> negative (analyze_loop polarity reviews s)
     = negative s + int (length (filter (\<lambda>t. classify polarity t = Negative) reviews))"
proof (induction reviews arbitrary: s)
  case Nil
  show ?case by simp
next
  case (Cons review reviews)
  show ?case
    using Cons.IH [of "analyze_review polarity review s"]
    by (cases "classify polarity review") (simp_all add: analyze_review_classify)
qed

text \<open>
  Claim C3. A text is classified Positive exactly when its polarity is strictly greater
  than 0.2, Negative exactly when it is strictly less than -0.2, and Neutral otherwise;
  the polarities 0.2 and -0.2 themselves are Neutral. The tally of one text counts it
  in that bucket.
\<close>

theorem classify_thresholds:
  "(classify polarity review = Positive \<longleftrightarrow> polarity review > 0.2)
   \<and> (classify polarity review = Negative \<longleftrightarrow> polarity review < - 0.2)
   \<and> (classify polarity review = Neutral \<longleftrightarrow> - 0.2 \<le> polarity review \<and> polarity review \<le> 0.2)
   \<and> (polarity review = 0.2 \<longrightarrow> classify polarity review = Neutral)
   \<and> (polarity review = - 0.2 \<longrightarrow> classify polarity review = Neutral)
   \<and> analyze_sentiment polarity [review]
       = count_in (classify polarity review) \<lparr>positive = 0, neutral = 0, negative = 0\<rparr>"
  by (auto simp: classify_def analyze_sentiment_def analyze_review_classify Let_def)

theorem classify_thresholds_witness:
  "classify (\<lambda>t. 0.2) ''fine'' = Neutral
   \<and> classify (\<lambda>t. - 0.2) ''fine'' = Neutral
   \<and> classify (\<lambda>t. 0.21) ''wonderful'' = Positive
   \<and> classify (\<lambda>t. - 1) ''terrible'' = Negative
   \<and> analyze_sentiment (\<lambda>t. 0.2) [''fine''] = \<lparr>positive = 0, neutral = 1, negative = 0\<rparr>"
  using classify_thresholds [of "\<lambda>t. 0.2" "''fine''"]
    classify_thresholds [of "\<lambda>t. - 0.2" "''fine''"]
    classify_thresholds [of "\<lambda>t. 0.21" "''wonderful''"]
    classify_thresholds [of "\<lambda>t. - 1" "''terrible''"]
  by simp

text \<open>
  Claim C10. The tally assigns each text to exactly one bucket: each counter is the
  number of texts of its bucket, the three counters sum to the number of texts, and the
  empty list gives the tally of three zeros.
\<close>

theorem analyze_sentiment_total:
  "positive (analyze_sentiment polarity reviews)
     + neutral (analyze_sentiment polarity reviews)
     + negative (analyze_sentiment polarity reviews) = int (length reviews)
   \<and> positive (analyze_sentiment polarity reviews)
       = int (length (filter (\<lambda>t. classify polarity t = Positive) reviews))
   \<and> neutral (analyze_sentiment polarity reviews)
       = int (length (filter (\<lambda>t. classify polarity t = Neutral) reviews))
   \<and> negative (analyze_sentiment polarity reviews)
       = int (length (filter (\<lambda>t. classify polarity t = Negative) reviews))
   \<and> analyze_sentiment polarity [] = \<lparr>positive = 0, neutral = 0, negative = 0\<rparr>"
  using analyze_loop_sum [of polarity reviews "\<lparr>positive = 0, neutral = 0, negative = 0\<rparr>"]
    analyze_loop_counts [of polarity reviews "\<lparr>positive = 0, neutral = 0, negative = 0\<rparr>"]
  by (simp add: analyze_sentiment_def)

section \<open>Properties of the key metrics\<close>



section \<open>Properties of the geocoding cache\<close>



lemma cache_setitem_logs:
  "requests (cache_setitem w g k v) = requests g"
  "lookups (cache_setitem w g k v) = lookups g"
  "clock_reads (cache_setitem w g k v) = Suc (clock_reads g)"
  by (simp_all add: cache_setitem_def Let_def)

lemma cache_getitem_logs:
  "requests (snd (cache_getitem w g k)) = requests g"
  "lookups (snd (cache_getitem w g k)) = lookups g"
  by (simp_all add: cache_getitem_def Let_def split: option.splits prod.splits)





lemma cached_lookups:
  "lookups (snd (geocode_postal_code_cached w g k)) = lookups g @ [k]"
proof -
  have "lookups (snd (cache_getitem w (g\<lparr>lookups := lookups g @ [k]\<rparr>) k)) = lookups g @ [k]"
    by (simp add: cache_getitem_logs)
  then show ?thesis
    by (cases "cache_getitem w (g\<lparr>lookups := lookups g @ [k]\<rparr>) k")
       (auto simp: geocode_postal_code_cached_def Let_def cache_setitem_logs
          split: option.splits sum.splits)
qed

































section \<open>Properties of the enrichment loop\<close>

lemma kept_same: "kept r r"
  by (simp add: kept_def)

lemma kept_set: "Latitude r = None \<Longrightarrow> kept r (r\<lparr>Latitude := lat, Longitude := lng\<rparr>)"
  by (simp add: kept_def)

lemma kept_all: "list_all2 kept rows rows"
  by (simp add: list_all2_refl kept_same)

lemma add_geocoded_rows:
  "add_geocoded w df g = (df', g', e) \<Longrightarrow> list_all2 kept df df'"
proof (induction df arbitrary: g df' g' e)
  case Nil
  then show ?case by simp
next
  case (Cons row rows)
  show ?case
  proof (cases "Latitude row = None")
    case False
    with Cons.prems obtain rows' where
      "add_geocoded w rows g = (rows', g', e)" "df' = row # rows'"
      by (auto split: prod.splits)
    with Cons.IH show ?thesis by (simp add: kept_same)
  next
    case True
    show ?thesis
    proof (cases "geocode_postal_code_cached w g (PostalCode row)")
      case (Pair res g1)
      show ?thesis
      proof (cases res)
        case (Inl err)
        with Cons.prems True Pair have "df' = row # rows" by simp
        then show ?thesis by (simp add: kept_all kept_same)
      next
        case (Inr v)
        obtain lat lng where v: "v = (lat, lng)" by (cases v)
        with Cons.prems True Pair Inr obtain rows' where
          "add_geocoded w rows g1 = (rows', g', e)"
          "df' = row\<lparr>Latitude := lat, Longitude := lng\<rparr> # rows'"
          by (auto split: prod.splits)
        with Cons.IH True show ?thesis by (simp add: kept_set)
      qed
    qed
  qed
qed

lemma add_geocoded_lookups:
  "add_geocoded w df g = (df', g', e) \<Longrightarrow>
     (\<exists>n. lookups g' = lookups g @ take n (map PostalCode (filter (\<lambda>r. Latitude r = None) df)))
   \<and> (e = None \<longrightarrow>
        lookups g' = lookups g @ map PostalCode (filter (\<lambda>r. Latitude r = None) df))"
proof (induction df arbitrary: g df' g' e)
  case Nil
  then show ?case by simp
next
  case (Cons row rows)
  let ?ks = "map PostalCode (filter (\<lambda>r. Latitude r = None) rows)"
  show ?case
  proof (cases "Latitude row = None")
    case False
    with Cons.prems obtain rows' where rec: "add_geocoded w rows g = (rows', g', e)"
      by (auto split: prod.splits)
    from False obtain y where "Latitude row = Some y" by auto
    with Cons.IH [OF rec] show ?thesis by simp
  next
    case True
    show ?thesis
    proof (cases "geocode_postal_code_cached w g (PostalCode row)")
      case (Pair res g1)
      have g1: "lookups g1 = lookups g @ [PostalCode row]"
        using cached_lookups [of w g "PostalCode row"] Pair by simp
      show ?thesis
      proof (cases res)
        case (Inl err)
        with Cons.prems True Pair have "g' = g1" "e = Some err" by simp_all
        with g1 True have "lookups g' = lookups g @ take 1 (PostalCode row # ?ks)" by simp
        with True \<open>e = Some err\<close> show ?thesis by (auto intro: exI [of _ 1])
      next
        case (Inr v)
        obtain lat lng where v: "v = (lat, lng)" by (cases v)
        with Cons.prems True Pair Inr obtain rows' where
          rec: "add_geocoded w rows g1 = (rows', g', e)"
          by (auto split: prod.splits)
        from Cons.IH [OF rec] obtain n where
          n: "lookups g' = lookups g1 @ take n ?ks"
          and all: "e = None \<longrightarrow> lookups g' = lookups g1 @ ?ks"
          by blast
        from n g1 True have "lookups g' = lookups g @ take (Suc n) (PostalCode row # ?ks)"
          by simp
        with all g1 True show ?thesis by (auto intro: exI [of _ "Suc n"])
      qed
    qed
  qed
qed

text \<open>
  Claim C8. Whatever the loop does and however it ends, the table keeps its length; a
  row whose latitude is present at load time is the same row afterwards; any row differs
  from the row at load time in its latitude and longitude at most. The decorated
  geocoding function is called only for rows whose latitude is missing, once for each
  in the order of the table, up to the row at which an exception ends the loop: the
  postal codes it was called with are those of the rows without latitude, all of them
  when the loop ends without an exception.
\<close>

theorem add_geocoded_frame:
  assumes "add_geocoded w df g = (df', g', e)"
  shows "length df' = length df
   \<and> (\<forall>i<length df. Latitude (df ! i) \<noteq> None \<longrightarrow> df' ! i = df ! i)
   \<and> (\<forall>i<length df.
        df' ! i = (df ! i)\<lparr>Latitude := Latitude (df' ! i), Longitude := Longitude (df' ! i)\<rparr>)
   \<and> (\<exists>n. lookups g' = lookups g @ take n (map PostalCode (filter (\<lambda>r. Latitude r = None) df)))
   \<and> (e = None \<longrightarrow>
        lookups g' = lookups g @ map PostalCode (filter (\<lambda>r. Latitude r = None) df))"
proof -
  from add_geocoded_rows [OF assms] have len: "length df = length df'"
    and each: "\<And>i. i < length df \<Longrightarrow> kept (df ! i) (df' ! i)"
    by (simp_all add: list_all2_conv_all_nth)
  have same: "df' ! i = df ! i" if "i < length df" "Latitude (df ! i) \<noteq> None" for i
    using each [OF that(1)] that(2) by (simp add: kept_def)
  have coords: "df' ! i = (df ! i)\<lparr>Latitude := Latitude (df' ! i), Longitude := Longitude (df' ! i)\<rparr>"
    if "i < length df" for i
    using each [OF that] by (cases "Latitude (df ! i) = None") (simp_all add: kept_def)
  from len same coords add_geocoded_lookups [OF assms] show ?thesis
    by simp
qed

text \<open>
  A table of two rows: the first has coordinates and is left alone, the second has none
  and is the only one that is looked up.
\<close>

theorem add_geocoded_frame_witness:
  "add_geocoded world_toronto
     [dealer_A\<lparr>Latitude := Some 45.4, Longitude := Some (- 75.7)\<rparr>,
      dealer_B\<lparr>PostalCode := Some ''V5K 0A1''\<rparr>] empty_geocoder
   = ([dealer_A\<lparr>Latitude := Some 45.4, Longitude := Some (- 75.7)\<rparr>,
       dealer_B\<lparr>PostalCode := Some ''V5K 0A1'', Latitude := Some 43.6, Longitude := Some (- 79.4)\<rparr>],
      \<lparr>cache = [(Some ''V5K 0A1'', (Some 43.6, Some (- 79.4)), 86400)], clock_reads = 1,
       requests = [Some ''V5K 0A1''], lookups = [Some ''V5K 0A1'']\<rparr>, None)
   \<and> Latitude (dealer_A\<lparr>Latitude := Some 45.4, Longitude := Some (- 75.7)\<rparr>) \<noteq> None"
proof -
  have run: "add_geocoded world_toronto
     [dealer_A\<lparr>Latitude := Some 45.4, Longitude := Some (- 75.7)\<rparr>,
      dealer_B\<lparr>PostalCode := Some ''V5K 0A1''\<rparr>] empty_geocoder
   = ([dealer_A\<lparr>Latitude := Some 45.4, Longitude := Some (- 75.7)\<rparr>,
       dealer_B\<lparr>PostalCode := Some ''V5K 0A1'', Latitude := Some 43.6, Longitude := Some (- 79.4)\<rparr>],
      \<lparr>cache = [(Some ''V5K 0A1'', (Some 43.6, Some (- 79.4)), 86400)], clock_reads = 1,
       requests = [Some ''V5K 0A1''], lookups = [Some ''V5K 0A1'']\<rparr>, None)"
    by (simp add: geocode_postal_code_cached_def geocode_postal_code_def cache_getitem_def
      cache_setitem_def expire_def maxsize_def ttl_def world_toronto_def empty_geocoder_def
      dealer_A_def dealer_B_def Let_def)
  show ?thesis
    using run add_geocoded_frame [OF run] by simp
qed

section \<open>Properties of the review trends\<close>









section \<open>Properties of the live refresh\<close>

lemma refresh_no_place:
  "\<not> truthy (dict_get dealer ''place_id'') \<Longrightarrow>
     refresh_dealer details_get dealer = Inr (dealer(''Status'' \<mapsto> JStr ''Failed: No Place ID''))"
  by (simp add: refresh_dealer_def)

lemma refresh_failed_code:
  "truthy (dict_get dealer ''place_id'') \<Longrightarrow>
   details_get (dict_get dealer ''place_id'') = Inr (Response status_code body) \<Longrightarrow>
   status_code \<noteq> 200 \<Longrightarrow>
     refresh_dealer details_get dealer
       = Inr (dealer(''Status'' \<mapsto> JStr (''Failed: '' @ str_int status_code)))"
  by (simp add: refresh_dealer_def)

lemma refresh_answered:
  assumes "truthy (dict_get dealer ''place_id'') \<longrightarrow> answered (details_get (dict_get dealer ''place_id''))"
  shows "\<exists>d status. refresh_dealer details_get dealer = Inr d \<and> d ''Status'' = Some (JStr status)"
proof (cases "truthy (dict_get dealer ''place_id'')")
  case False
  then show ?thesis by (simp add: refresh_no_place)
next
  case True
  with assms have a: "answered (details_get (dict_get dealer ''place_id''))" by simp
  then obtain status_code body where
    r: "details_get (dict_get dealer ''place_id'') = Inr (Response status_code body)"
    by (auto simp: answered_def split: sum.splits http_response.splits)
  show ?thesis
  proof (cases "status_code = 200")
    case False
    with True r show ?thesis by (simp add: refresh_failed_code)
  next
    case ok: True
    with a r have "readable body" by (simp add: answered_def)
    with True r ok show ?thesis
      by (auto simp: refresh_dealer_def readable_def Let_def
          split: option.splits json.splits)
  qed
qed

lemma fetch_loop_all:
  assumes "\<forall>j<length dealers. \<exists>d. refresh_dealer (places_get (i + j)) (dealers ! j) = Inr d"
  shows "\<exists>us. fetch_loop places_get i dealers updated = Inr (updated @ us)
      \<and> length us = length dealers
      \<and> (\<forall>j<length dealers. refresh_dealer (places_get (i + j)) (dealers ! j) = Inr (us ! j))"
  using assms
proof (induction dealers arbitrary: i updated)
  case Nil
  then show ?case by simp
next
  case (Cons dealer dealers)
  from Cons.prems [rule_format, of 0] obtain d where
    d: "refresh_dealer (places_get i) dealer = Inr d" by auto
  have rest: "\<forall>j<length dealers. \<exists>d. refresh_dealer (places_get (Suc i + j)) (dealers ! j) = Inr d"
  proof (intro allI impI)
    fix j assume "j < length dealers"
    with Cons.prems [rule_format, of "Suc j"] show "\<exists>d. refresh_dealer (places_get (Suc i + j)) (dealers ! j) = Inr d"
      by simp
  qed
  from Cons.IH [OF rest, of "updated @ [d]"] obtain us where
    us: "fetch_loop places_get (Suc i) dealers (updated @ [d]) = Inr ((updated @ [d]) @ us)"
      "length us = length dealers"
      "\<forall>j<length dealers. refresh_dealer (places_get (Suc i + j)) (dealers ! j) = Inr (us ! j)"
    by blast
  have "\<forall>j<length (dealer # dealers).
      refresh_dealer (places_get (i + j)) ((dealer # dealers) ! j) = Inr ((d # us) ! j)"
  proof (intro allI impI)
    fix j assume j: "j < length (dealer # dealers)"
    show "refresh_dealer (places_get (i + j)) ((dealer # dealers) ! j) = Inr ((d # us) ! j)"
    proof (cases j)
      case 0
      with d show ?thesis by simp
    next
      case (Suc j')
      with j us(3) show ?thesis by simp
    qed
  qed
  with us(1,2) d show ?case
    by (intro exI [of _ "d # us"]) simp
qed


lemma refresh_returns_iff:
  "(\<exists>d. refresh_dealer details_get dealer = Inr d) \<longleftrightarrow>
   (truthy (dict_get dealer ''place_id'') \<longrightarrow> answered (details_get (dict_get dealer ''place_id'')))"
proof (cases "truthy (dict_get dealer ''place_id'')")
  case False
  then show ?thesis by (simp add: refresh_no_place)
next
  case True
  show ?thesis
  proof
    assume "truthy (dict_get dealer ''place_id'') \<longrightarrow> answered (details_get (dict_get dealer ''place_id''))"
    from refresh_answered [of dealer details_get, OF this]
    show "\<exists>d. refresh_dealer details_get dealer = Inr d" by blast
  next
    assume "\<exists>d. refresh_dealer details_get dealer = Inr d"
    with True have "answered (details_get (dict_get dealer ''place_id''))"
      by (auto simp: refresh_dealer_def answered_def readable_def Let_def
          split: sum.splits http_response.splits option.splits json.splits if_splits)
    then show "truthy (dict_get dealer ''place_id'') \<longrightarrow> answered (details_get (dict_get dealer ''place_id''))"
      by simp
  qed
qed

lemma fetch_loop_returned:
  "fetch_loop places_get i dealers updated = Inr r \<Longrightarrow>
     \<forall>j<length dealers. \<exists>d. refresh_dealer (places_get (i + j)) (dealers ! j) = Inr d"
proof (induction dealers arbitrary: i updated)
  case Nil
  then show ?case by simp
next
  case (Cons dealer dealers)
  from Cons.prems obtain d where d: "refresh_dealer (places_get i) dealer = Inr d"
    and rest: "fetch_loop places_get (Suc i) dealers (updated @ [d]) = Inr r"
    by (auto split: sum.splits)
  show ?case
  proof (intro allI impI)
    fix j assume j: "j < length (dealer # dealers)"
    show "\<exists>d. refresh_dealer (places_get (i + j)) ((dealer # dealers) ! j) = Inr d"
    proof (cases j)
      case 0
      with d show ?thesis by simp
    next
      case (Suc j')
      with j Cons.IH [OF rest] show ?thesis by simp
    qed
  qed
qed

lemma fetch_loop_raise:
  "j < length dealers \<Longrightarrow>
   refresh_dealer (places_get (i + j)) (dealers ! j) = Inl e \<Longrightarrow>
   \<forall>j'<j. \<exists>d. refresh_dealer (places_get (i + j')) (dealers ! j') = Inr d \<Longrightarrow>
     fetch_loop places_get i dealers updated = Inl e"
proof (induction dealers arbitrary: i j updated)
  case Nil
  then show ?case by simp
next
  case (Cons dealer dealers)
  show ?case
  proof (cases j)
    case 0
    with Cons.prems show ?thesis by simp
  next
    case (Suc j')
    with Cons.prems(3) [rule_format, of 0] obtain d where
      d: "refresh_dealer (places_get i) dealer = Inr d" by auto
    have before: "\<forall>k<j'. \<exists>d. refresh_dealer (places_get (Suc i + k)) (dealers ! k) = Inr d"
    proof (intro allI impI)
      fix k assume "k < j'"
      with Cons.prems(3) [rule_format, of "Suc k"] Suc
      show "\<exists>d. refresh_dealer (places_get (Suc i + k)) (dealers ! k) = Inr d" by simp
    qed
    from Cons.prems(1,2) Suc have "j' < length dealers"
      "refresh_dealer (places_get (Suc i + j')) (dealers ! j') = Inl e" by simp_all
    from Cons.IH [OF this before] d show ?thesis by simp
  qed
qed

text \<open>
  Claim C9, as the code has it. The function returns a list exactly when every request
  that it makes is answered: a response comes back, and a response with status code 200
  has a body that the function can read. The list then has one dictionary for each
  input dealer, in the order of the input, each the outcome of the loop body for that
  dealer and each with a status string. When the request for a dealer is not answered,
  after requests that were, the exception of that request ends the function, and no
  list is returned. In the loop body a missing place identifier and a response with a
  status code other than 200, so with any code outside the range from 200 to 299, never
  raise, whatever the service does for other dealers: the dealer gets the status
  \<open>Failed: No Place ID\<close>, or \<open>Failed:\<close> with the code.
\<close>

theorem fetch_live_reviews_status:
  "((\<exists>updated. fetch_live_reviews places_get dealers = Inr updated) \<longleftrightarrow>
      (\<forall>i<length dealers.
          truthy (dict_get (dealers ! i) ''place_id'') \<longrightarrow>
          answered (places_get i (dict_get (dealers ! i) ''place_id''))))
   \<and> (\<forall>updated. fetch_live_reviews places_get dealers = Inr updated \<longrightarrow>
         length updated = length dealers
       \<and> (\<forall>i<length dealers.
            refresh_dealer (places_get i) (dealers ! i) = Inr (updated ! i)
          \<and> (\<exists>status. (updated ! i) ''Status'' = Some (JStr status))))
   \<and> (\<forall>i<length dealers. \<forall>e.
         (\<forall>j<i. truthy (dict_get (dealers ! j) ''place_id'') \<longrightarrow>
                 answered (places_get j (dict_get (dealers ! j) ''place_id'')))
         \<and> refresh_dealer (places_get i) (dealers ! i) = Inl e \<longrightarrow>
         fetch_live_reviews places_get dealers = Inl e)
   \<and> (\<forall>dealer details_get.
         \<not> truthy (dict_get dealer ''place_id'') \<longrightarrow>
         refresh_dealer details_get dealer
           = Inr (dealer(''Status'' \<mapsto> JStr ''Failed: No Place ID'')))
   \<and> (\<forall>dealer details_get status_code body.
         truthy (dict_get dealer ''place_id'')
         \<and> details_get (dict_get dealer ''place_id'') = Inr (Response status_code body)
         \<and> status_code \<noteq> 200 \<longrightarrow>
         refresh_dealer details_get dealer
           = Inr (dealer(''Status'' \<mapsto> JStr (''Failed: '' @ str_int status_code))))"
proof (intro conjI)
  let ?ok = "\<lambda>i. truthy (dict_get (dealers ! i) ''place_id'') \<longrightarrow>
      answered (places_get i (dict_get (dealers ! i) ''place_id''))"
  have ok_iff: "?ok i \<longleftrightarrow> (\<exists>d. refresh_dealer (places_get i) (dealers ! i) = Inr d)" for i
    by (simp add: refresh_returns_iff)
  show "(\<exists>updated. fetch_live_reviews places_get dealers = Inr updated) \<longleftrightarrow>
      (\<forall>i<length dealers. ?ok i)"
  proof
    assume "\<exists>updated. fetch_live_reviews places_get dealers = Inr updated"
    then obtain r where "fetch_loop places_get 0 dealers [] = Inr r"
      by (auto simp: fetch_live_reviews_def)
    from fetch_loop_returned [OF this] show "\<forall>i<length dealers. ?ok i"
      by (simp add: ok_iff)
  next
    assume "\<forall>i<length dealers. ?ok i"
    then have "\<forall>j<length dealers. \<exists>d. refresh_dealer (places_get (0 + j)) (dealers ! j) = Inr d"
      by (simp add: ok_iff)
    from fetch_loop_all [OF this, of "[]"]
    show "\<exists>updated. fetch_live_reviews places_get dealers = Inr updated"
      by (auto simp: fetch_live_reviews_def)
  qed
  show "\<forall>updated. fetch_live_reviews places_get dealers = Inr updated \<longrightarrow>
         length updated = length dealers
       \<and> (\<forall>i<length dealers.
            refresh_dealer (places_get i) (dealers ! i) = Inr (updated ! i)
          \<and> (\<exists>status. (updated ! i) ''Status'' = Some (JStr status)))"
  proof (intro allI impI)
    fix updated
    assume run: "fetch_live_reviews places_get dealers = Inr updated"
    then have loop: "fetch_loop places_get 0 dealers [] = Inr updated"
      by (simp add: fetch_live_reviews_def)
    from fetch_loop_returned [OF loop]
    have all: "\<forall>j<length dealers. \<exists>d. refresh_dealer (places_get (0 + j)) (dealers ! j) = Inr d"
      by simp
    from fetch_loop_all [OF all, of "[]"] loop
    have len: "length updated = length dealers"
      and nth: "\<And>i. i < length dealers \<Longrightarrow>
        refresh_dealer (places_get i) (dealers ! i) = Inr (updated ! i)"
      by auto
    have status: "\<exists>status. (updated ! i) ''Status'' = Some (JStr status)"
      if "i < length dealers" for i
    proof -
      from nth [OF that] have "?ok i" by (simp add: ok_iff)
      from refresh_answered [of "dealers ! i" "places_get i", OF this] nth [OF that]
      show ?thesis by auto
    qed
    from len nth status
    show "length updated = length dealers
       \<and> (\<forall>i<length dealers.
            refresh_dealer (places_get i) (dealers ! i) = Inr (updated ! i)
          \<and> (\<exists>status. (updated ! i) ''Status'' = Some (JStr status)))"
      by simp
  qed
  show "\<forall>i<length dealers. \<forall>e.
         (\<forall>j<i. ?ok j) \<and> refresh_dealer (places_get i) (dealers ! i) = Inl e \<longrightarrow>
         fetch_live_reviews places_get dealers = Inl e"
  proof (intro allI impI, elim conjE)
    fix i e
    assume i: "i < length dealers"
      and before: "\<forall>j<i. ?ok j"
      and raise: "refresh_dealer (places_get i) (dealers ! i) = Inl e"
    from before have "\<forall>j'<i. \<exists>d. refresh_dealer (places_get (0 + j')) (dealers ! j') = Inr d"
      by (simp add: ok_iff)
    from fetch_loop_raise [of i dealers places_get 0 e "[]", OF i _ this] raise
    show "fetch_live_reviews places_get dealers = Inl e"
      by (simp add: fetch_live_reviews_def)
  qed
  show "\<forall>dealer details_get.
         \<not> truthy (dict_get dealer ''place_id'') \<longrightarrow>
         refresh_dealer details_get dealer
           = Inr (dealer(''Status'' \<mapsto> JStr ''Failed: No Place ID''))"
    by (simp add: refresh_no_place)
  show "\<forall>dealer details_get status_code body.
         truthy (dict_get dealer ''place_id'')
         \<and> details_get (dict_get dealer ''place_id'') = Inr (Response status_code body)
         \<and> status_code \<noteq> 200 \<longrightarrow>
         refresh_dealer details_get dealer
           = Inr (dealer(''Status'' \<mapsto> JStr (''Failed: '' @ str_int status_code)))"
    by (simp add: refresh_failed_code)
qed

text \<open>
  A dealer without a place identifier, a dealer whose place is answered with 404, and a
  dealer whose place is found: every request is answered, and the three statuses are
  reported.
\<close>

theorem fetch_live_reviews_status_witness:
  "\<not> truthy (dict_get dealer_no_place ''place_id'')
   \<and> truthy (dict_get dealer_gone ''place_id'')
   \<and> places_example 1 (dict_get dealer_gone ''place_id'') = Inr (Response 404 None)
   \<and> answered (places_example 1 (dict_get dealer_gone ''place_id''))
   \<and> answered (places_example 2 (dict_get dealer_live ''place_id''))
   \<and> map_sum id (map (\<lambda>d. d ''Status''))
        (fetch_live_reviews places_example [dealer_no_place, dealer_gone, dealer_live])
      = Inr [Some (JStr ''Failed: No Place ID''), Some (JStr ''Failed: 404''),
             Some (JStr ''Updated'')]
   \<and> refresh_dealer (places_example 1) dealer_gone
      = Inr (dealer_gone(''Status'' \<mapsto> JStr ''Failed: 404''))"
proof -
  have code: "str_int 404 = ''404''"
    by code_simp
  have places: "\<not> truthy (dict_get dealer_no_place ''place_id'')"
    "truthy (dict_get dealer_gone ''place_id'')"
    "places_example 1 (dict_get dealer_gone ''place_id'') = Inr (Response 404 None)"
    "answered (places_example 1 (dict_get dealer_gone ''place_id''))"
    "answered (places_example 2 (dict_get dealer_live ''place_id''))"
    by (simp_all add: dict_get_def obj_get_def dealer_no_place_def dealer_gone_def
        dealer_live_def places_example_def answered_def readable_def)
  have run: "map_sum id (map (\<lambda>d. d ''Status''))
        (fetch_live_reviews places_example [dealer_no_place, dealer_gone, dealer_live])
      = Inr [Some (JStr ''Failed: No Place ID''), Some (JStr ''Failed: 404''),
             Some (JStr ''Updated'')]"
    by (simp add: fetch_live_reviews_def refresh_dealer_def places_example_def
        dealer_no_place_def dealer_gone_def dealer_live_def dict_get_def obj_get_def code Let_def)
  note report = fetch_live_reviews_status
    [of places_example "[dealer_no_place, dealer_gone, dealer_live]"]
  note failed = report [THEN conjunct2, THEN conjunct2, THEN conjunct2, THEN conjunct2]
  have gone: "refresh_dealer (places_example 1) dealer_gone
      = Inr (dealer_gone(''Status'' \<mapsto> JStr ''Failed: 404''))"
    using failed [rule_format, of dealer_gone "places_example 1" 404 None] places code
    by simp
  show ?thesis
    using places run gone by simp
qed

text \<open>
  The claim as the specification states it fails when a request raises: for one dealer
  with a place identifier and a service that cannot be reached, or that answers 200
  with a body that is no JSON, the function raises and returns no result for the
  dealer.
\<close>

theorem fetch_live_reviews_raises:
  "fetch_live_reviews places_unreachable [dealer_gone] = Inl RequestException
   \<and> fetch_live_reviews places_garbled [dealer_no_place, dealer_gone] = Inl RequestException"
  by (simp add: fetch_live_reviews_def refresh_dealer_def places_unreachable_def
      places_garbled_def dealer_no_place_def dealer_gone_def dict_get_def)

end
